theory Spec2Isabelle
  imports Main "HOL-Library.Sublist"
begin

section \<open>Python values, exceptions and in-memory buffers\<close>

text \<open>
  The module \<^verbatim>\<open>gif.py\<close> is a wrapper around three external libraries: matplotlib's
  \<^verbatim>\<open>pyplot\<close>, \<^verbatim>\<open>altair_saver\<close> and PIL's \<^verbatim>\<open>Image\<close>. The libraries are not part of the
  repository; they are taken as parameters. Every call into a library may raise, and
  returns the state it owns (the global figure state of pyplot, the file system for the
  image codec) in both cases.
\<close>

text \<open>
  The representation of a class whose metaclass is \<^verbatim>\<open>type\<close>,
  \<^verbatim>\<open><class 'qualified.name'>\<close>; the quote is the character \<open>0x27\<close>.
\<close>

definition class_repr :: "string \<Rightarrow> string" where
  "class_repr name = ''<class '' @ [CHR 0x27] @ name @ [CHR 0x27] @ ''>''"

text \<open>
  The class of an object. \<^verbatim>\<open>str(cls)\<close> is computed by the metaclass of \<^verbatim>\<open>cls\<close>: a class
  whose metaclass is \<^verbatim>\<open>type\<close> prints as above, from its qualified name; a class whose
  metaclass defines \<^verbatim>\<open>__str__\<close> or \<^verbatim>\<open>__repr__\<close> (an \<^verbatim>\<open>Enum\<close>, say) prints as that method
  decides, or raises what that method raises.
\<close>

datatype 'e pyclass =
    Class string
  | Metaclass "'e + string"

fun str_class :: "'e pyclass \<Rightarrow> 'e + string" where
  "str_class (Class name) = Inr (class_repr name)"
| "str_class (Metaclass outcome) = outcome"

text \<open>Values that flow through the wrapper. An object carries its class.\<close>

datatype 'e pyval =
    PyNone
  | PyBool bool
  | PyInt int
  | PyStr string
  | PyObject "'e pyclass" string

text \<open>\<^verbatim>\<open>str(type(v))\<close>: the string, or the exception raised while printing the class.\<close>

fun type_str :: "'e pyval \<Rightarrow> 'e + string" where
  "type_str PyNone = Inr (class_repr ''NoneType'')"
| "type_str (PyBool _) = Inr (class_repr ''bool'')"
| "type_str (PyInt _) = Inr (class_repr ''int'')"
| "type_str (PyStr _) = Inr (class_repr ''str'')"
| "type_str (PyObject cls _) = str_class cls"

text \<open>\<^verbatim>\<open>needle in haystack\<close> on strings: a contiguous substring.\<close>

definition py_in :: "string \<Rightarrow> string \<Rightarrow> bool" where
  "py_in needle haystack = sublist needle haystack"

type_synonym 'e kwargs = "(string \<times> 'e pyval) list"

text \<open>
  Exceptions. \<open>MissingExtension\<close> is the class the module declares; \<open>IndexError\<close>,
  \<open>NameError\<close> and \<open>TypeError_multiple_values k\<close> (``got multiple values for keyword argument
  k'') are raised by the interpreter; \<open>Lib e\<close> is an exception \<open>e\<close> raised inside a library or
  inside the user's code (the plotting function, the metaclass of the value it returns),
  opaque to the wrapper.
\<close>

datatype 'e exn =
    MissingExtension string
  | IndexError
  | NameError string
  | TypeError_multiple_values string
  | Lib 'e


text \<open>\<^verbatim>\<open>io.BytesIO\<close>: the bytes written and the stream position.\<close>

record bytesio =
  content :: "nat list"
  pos :: nat

definition BytesIO :: bytesio where
  "BytesIO = \<lparr>content = [], pos = 0\<rparr>"

definition seek :: "bytesio \<Rightarrow> nat \<Rightarrow> bytesio" where
  "seek b n = b\<lparr>pos := n\<rparr>"

text \<open>
  A call \<^verbatim>\<open>f(..., k=v, **kw)\<close>: the interpreter merges the explicit keywords with the
  unpacked mapping and raises \<open>TypeError\<close> at the first key of \<open>kw\<close> that is already given.
\<close>

definition call_keywords :: "'e kwargs \<Rightarrow> 'e kwargs \<Rightarrow> 'e exn + 'e kwargs" where
  "call_keywords explicit kw =
     (case find (\<lambda>(k, v). k \<in> set (map fst explicit)) kw of
        Some (k, v) \<Rightarrow> Inl (TypeError_multiple_values k)
      | None \<Rightarrow> Inr (explicit @ kw))"

section \<open>The sequence encoder: \<^verbatim>\<open>save\<close>\<close>

text \<open>The keyword arguments \<^verbatim>\<open>save\<close> passes to \<^verbatim>\<open>Image.save\<close>.\<close>

record 'i save_options =
  save_all :: bool
  append_images :: "'i list"
  optimize :: bool
  duration :: int
  loop :: int

text \<open>
  \<^verbatim>\<open>Image.save(self, path, **options)\<close> of the image codec, over the file system \<open>'fs\<close>.
\<close>

type_synonym ('i, 'fs, 'e) image_save =
  "'i \<Rightarrow> string \<Rightarrow> 'i save_options \<Rightarrow> 'fs \<Rightarrow> ('e + unit) \<times> 'fs"

text \<open>
  \<^verbatim>\<open>def save(frames, path, duration=100)\<close>. The parameter \<open>duration\<close> is \<open>None\<close> when the
  caller does not supply it. \<^verbatim>\<open>frames[0]\<close> raises \<open>IndexError\<close> on an empty list, before any
  argument of the call is evaluated. The function has no \<^verbatim>\<open>return\<close>: its value is \<^verbatim>\<open>None\<close>,
  the unit value here.
\<close>

definition save ::
  "('i, 'fs, 'e) image_save \<Rightarrow> 'i list \<Rightarrow> string \<Rightarrow> int option \<Rightarrow> 'fs \<Rightarrow> ('e exn + unit) \<times> 'fs"
where
  "save Image_save frames path duration_arg fs =
     (let duration = (case duration_arg of None \<Rightarrow> 100 | Some d \<Rightarrow> d) in
      if length frames = 0 then (Inl IndexError, fs)
      else
        (case Image_save (frames ! 0) path
                \<lparr>save_all = True, append_images = drop 1 frames, optimize = True,
                 duration = duration, loop = 0\<rparr> fs of
           (Inl e, fs') \<Rightarrow> (Inl (Lib e), fs')
         | (Inr _, fs') \<Rightarrow> (Inr (), fs')))"

section \<open>The frame capturer: \<^verbatim>\<open>frame\<close>\<close>

text \<open>
  The outcome of \<^verbatim>\<open>from altair_saver import save as save_alt\<close> at module load time.
  \<^verbatim>\<open>altair_saver.save(chart, fp, fmt, ...)\<close> gets the chart, the buffer, the further
  positional arguments and the keywords, and returns the buffer it has written.
\<close>

type_synonym 'e save_alt_fn =
  "'e pyval \<Rightarrow> bytesio \<Rightarrow> 'e pyval list \<Rightarrow> 'e kwargs \<Rightarrow> 'e + bytesio"

datatype 'e import_outcome =
    Imported "'e save_alt_fn"
  | ModuleNotFoundError
  | OtherImportFailure 'e

text \<open>The module's globals after loading.\<close>

record 'e gif_module =
  altair_saver_installed :: bool
  save_alt :: "'e save_alt_fn option"

text \<open>
  Lines 7 to 12: only \<open>ModuleNotFoundError\<close> is handled; any other failure of the import
  makes loading the module fail.
\<close>

fun load_module :: "'e import_outcome \<Rightarrow> 'e exn + 'e gif_module" where
  "load_module (Imported f) = Inr \<lparr>altair_saver_installed = True, save_alt = Some f\<rparr>"
| "load_module ModuleNotFoundError = Inr \<lparr>altair_saver_installed = False, save_alt = None\<rparr>"
| "load_module (OtherImportFailure e) = Inl (Lib e)"

text \<open>
  The operations of pyplot and of the image codec that the capturer calls. \<open>'f\<close> is the
  global current-figure state of pyplot, \<open>'i\<close> a decoded image.
\<close>

record ('f, 'i, 'e) libraries =
  plt_savefig :: "bytesio \<Rightarrow> 'e pyval list \<Rightarrow> 'e kwargs \<Rightarrow> 'f \<Rightarrow> ('e + bytesio) \<times> 'f"
  plt_close :: "'f \<Rightarrow> ('e + unit) \<times> 'f"
  Image_open :: "bytesio \<Rightarrow> 'e + 'i"

text \<open>The user's plotting function: it may draw on the current figure and returns a value.\<close>

type_synonym ('f, 'e) plot_function =
  "'e pyval list \<Rightarrow> 'e kwargs \<Rightarrow> 'f \<Rightarrow> ('e + 'e pyval) \<times> 'f"

text \<open>Lines 60 to 62: rewind the buffer, decode it, return the image.\<close>

definition decode :: "('f, 'i, 'e) libraries \<Rightarrow> bytesio \<Rightarrow> 'f \<Rightarrow> ('e exn + 'i) \<times> 'f" where
  "decode L buffer f =
     (let buffer = seek buffer 0 in
      case Image_open L buffer of
        Inl e \<Rightarrow> (Inl (Lib e), f)
      | Inr img \<Rightarrow> (Inr img, f))"

text \<open>Lines 54 to 56, the branch taken for an Altair chart.\<close>

definition chart_mode ::
  "'e gif_module \<Rightarrow> ('f, 'i, 'e) libraries \<Rightarrow> 'e pyval list \<Rightarrow> 'e kwargs \<Rightarrow> bytesio
     \<Rightarrow> 'e pyval \<Rightarrow> 'f \<Rightarrow> ('e exn + 'i) \<times> 'f"
where
  "chart_mode G L save_args save_kwargs buffer plot f =
     (if \<not> altair_saver_installed G then (Inl (MissingExtension ''pip install gif[altair]''), f)
      else
        (case save_alt G of
           None \<Rightarrow> (Inl (NameError ''save_alt''), f)
         | Some save_alt_fn \<Rightarrow>
             (case call_keywords [(''fmt'', PyStr ''png'')] save_kwargs of
                Inl e \<Rightarrow> (Inl e, f)
              | Inr kw \<Rightarrow>
                  (case save_alt_fn plot buffer save_args kw of
                     Inl e \<Rightarrow> (Inl (Lib e), f)
                   | Inr buffer' \<Rightarrow> decode L buffer' f))))"

text \<open>Lines 58 and 59, the branch taken otherwise.\<close>

definition imperative_mode ::
  "('f, 'i, 'e) libraries \<Rightarrow> 'e pyval list \<Rightarrow> 'e kwargs \<Rightarrow> bytesio \<Rightarrow> 'f
     \<Rightarrow> ('e exn + 'i) \<times> 'f"
where
  "imperative_mode L save_args save_kwargs buffer f =
     (case call_keywords [(''format'', PyStr ''png'')] save_kwargs of
        Inl e \<Rightarrow> (Inl e, f)
      | Inr kw \<Rightarrow>
          (case plt_savefig L buffer save_args kw f of
             (Inl e, f') \<Rightarrow> (Inl (Lib e), f')
           | (Inr buffer', f') \<Rightarrow>
               (case plt_close L f' of
                  (Inl e, f'') \<Rightarrow> (Inl (Lib e), f'')
                | (Inr _, f'') \<Rightarrow> decode L buffer' f'')))"

text \<open>
  Lines 50 to 62. The test of line 53 prints the class of the value first; when that
  raises, the exception leaves the wrapper and neither branch is entered.
\<close>

definition wrapper2 ::
  "'e gif_module \<Rightarrow> ('f, 'i, 'e) libraries \<Rightarrow> 'e pyval list \<Rightarrow> 'e kwargs
     \<Rightarrow> ('f, 'e) plot_function \<Rightarrow> 'e pyval list \<Rightarrow> 'e kwargs \<Rightarrow> 'f \<Rightarrow> ('e exn + 'i) \<times> 'f"
where
  "wrapper2 G L save_args save_kwargs func args kwargs f =
     (let buffer = BytesIO in
      case func args kwargs f of
        (Inl e, f') \<Rightarrow> (Inl (Lib e), f')
      | (Inr plot, f') \<Rightarrow>
          (case type_str plot of
             Inl e \<Rightarrow> (Inl (Lib e), f')
           | Inr name \<Rightarrow>
               if py_in ''altair'' name
               then chart_mode G L save_args save_kwargs buffer plot f'
               else imperative_mode L save_args save_kwargs buffer f'))"

text \<open>Lines 49 and 64: \<^verbatim>\<open>wrapper1\<close> returns \<^verbatim>\<open>wrapper2\<close> closed over \<^verbatim>\<open>func\<close>.\<close>

definition wrapper1 ::
  "'e gif_module \<Rightarrow> ('f, 'i, 'e) libraries \<Rightarrow> 'e pyval list \<Rightarrow> 'e kwargs
     \<Rightarrow> ('f, 'e) plot_function \<Rightarrow> 'e pyval list \<Rightarrow> 'e kwargs \<Rightarrow> 'f \<Rightarrow> ('e exn + 'i) \<times> 'f"
where
  "wrapper1 G L save_args save_kwargs func = wrapper2 G L save_args save_kwargs func"

text \<open>Lines 19 and 65: \<^verbatim>\<open>frame(*save_args, **save_kwargs)\<close> returns \<^verbatim>\<open>wrapper1\<close>.\<close>

definition frame ::
  "'e gif_module \<Rightarrow> ('f, 'i, 'e) libraries \<Rightarrow> 'e pyval list \<Rightarrow> 'e kwargs
     \<Rightarrow> ('f, 'e) plot_function \<Rightarrow> 'e pyval list \<Rightarrow> 'e kwargs \<Rightarrow> 'f \<Rightarrow> ('e exn + 'i) \<times> 'f"
where
  "frame G L save_args save_kwargs = wrapper1 G L save_args save_kwargs"

section \<open>A small instance of the libraries\<close>

text \<open>
  An instance on which the model runs: the figure state is the list of artists drawn so
  far, rendering writes them to the buffer, closing the figure empties the list, decoding
  reads the buffer from its position, and the file system maps a path to the frames, the
  duration and the loop count written there. Library exceptions are strings.
\<close>

definition demo_savefig ::
  "bytesio \<Rightarrow> string pyval list \<Rightarrow> string kwargs \<Rightarrow> nat list
     \<Rightarrow> (string + bytesio) \<times> nat list"
where
  "demo_savefig buffer args kw f =
     (if map_of kw ''dpi'' = Some (PyInt 0) then (Inl ''ValueError'', f)
      else (Inr \<lparr>content = content buffer @ f, pos = pos buffer + length f\<rparr>, f))"

definition demo_close :: "nat list \<Rightarrow> (string + unit) \<times> nat list" where
  "demo_close f = (Inr (), [])"

definition demo_open :: "bytesio \<Rightarrow> string + nat list" where
  "demo_open b =
     (if pos b < length (content b) then Inr (drop (pos b) (content b))
      else Inl ''UnidentifiedImageError'')"

definition demo_libraries :: "(nat list, nat list, string) libraries" where
  "demo_libraries = \<lparr>plt_savefig = demo_savefig, plt_close = demo_close, Image_open = demo_open\<rparr>"

definition demo_save_alt :: "string save_alt_fn" where
  "demo_save_alt plot buffer args kw =
     (if map_of kw ''scale_factor'' = Some (PyInt 0) then Inl ''ValueError''
      else Inr \<lparr>content = content buffer @ [7], pos = pos buffer + 1\<rparr>)"

definition demo_plot :: "(nat list, string) plot_function" where
  "demo_plot args kwargs f =
     (case args of
        [PyInt i] \<Rightarrow> (Inr PyNone, f @ [nat i])
      | _ \<Rightarrow> (Inl ''TypeError'', f))"

definition demo_chart :: "(nat list, string) plot_function" where
  "demo_chart args kwargs f =
     (Inr (PyObject (Class ''altair.vegalite.v4.api.Chart'') ''chart''), f)"

text \<open>How the metaclass of \<^verbatim>\<open>Enum\<close> prints a class: \<^verbatim>\<open><enum 'Name'>\<close>.\<close>

definition enum_repr :: "string \<Rightarrow> string" where
  "enum_repr name = ''<enum '' @ [CHR 0x27] @ name @ [CHR 0x27] @ ''>''"

text \<open>A plotting function that draws one artist and returns the value given.\<close>

definition demo_returning :: "string pyval \<Rightarrow> (nat list, string) plot_function" where
  "demo_returning v args kwargs f = (Inr v, f @ [9])"

definition demo_image_save ::
  "(nat list, (string \<times> nat list list \<times> int \<times> int) list, string) image_save"
where
  "demo_image_save img path opts fs =
     (if path = [] then (Inl ''FileNotFoundError'', fs)
      else (Inr (), (path, img # append_images opts, duration opts, loop opts) # fs))"

section \<open>Properties of the sequence encoder\<close>

text \<open>
  C2. For a non-empty frame sequence, \<^verbatim>\<open>save\<close> makes one call of the codec: on the first
  frame as the base image, with the remaining frames appended in their order, with
  \<open>save_all\<close> and \<open>optimize\<close> enabled, \<open>loop = 0\<close> and the single duration given, which is
  100 when the caller gives none. What the codec raises is raised; otherwise the value
  returned is \<^verbatim>\<open>None\<close>.
\<close>

theorem save_encodes_all_frames:
  assumes "frames \<noteq> []"
  shows "save Image_save frames path duration_arg fs =
     (case Image_save (hd frames) path
             \<lparr>save_all = True, append_images = tl frames, optimize = True,
              duration = (case duration_arg of None \<Rightarrow> 100 | Some d \<Rightarrow> d), loop = 0\<rparr> fs of
        (Inl e, fs') \<Rightarrow> (Inl (Lib e), fs')
      | (Inr u, fs') \<Rightarrow> (Inr (), fs'))"
  using assms by (cases frames) (simp_all add: save_def drop_Suc)

theorem save_encodes_all_frames_witness:
  "[[1], [2], [3::nat]] \<noteq> [] \<and>
   save demo_image_save [[1], [2], [3]] ''out.gif'' None [] =
     (Inr (), [(''out.gif'', [[1], [2], [3]], 100, 0)]) \<and>
   save demo_image_save [[1], [2], [3]] ''out.gif'' (Some 50) [] =
     (Inr (), [(''out.gif'', [[1], [2], [3]], 50, 0)])"
proof -
  have ne: "[[1], [2], [3::nat]] \<noteq> []" by simp
  show ?thesis
    unfolding save_encodes_all_frames [OF ne]
    by (simp add: demo_image_save_def)
qed

text \<open>
  C5. On an empty frame sequence \<^verbatim>\<open>save\<close> raises the interpreter's \<open>IndexError\<close> from
  \<^verbatim>\<open>frames[0]\<close>; the codec is not called and the file system is left as it was.
\<close>

theorem save_empty_index_error:
  "save Image_save [] path duration_arg fs = (Inl IndexError, fs)"
  by (simp add: save_def)

text \<open>
  C8. On a sequence of exactly one frame \<^verbatim>\<open>save\<close> calls the codec on that frame with an
  empty append list and \<open>loop = 0\<close>; it raises no \<open>IndexError\<close>, and when the codec has
  written the file it returns \<^verbatim>\<open>None\<close>.
\<close>

theorem save_single_frame:
  "save Image_save [fr] path duration_arg fs =
     (case Image_save fr path
             \<lparr>save_all = True, append_images = [], optimize = True,
              duration = (case duration_arg of None \<Rightarrow> 100 | Some d \<Rightarrow> d), loop = 0\<rparr> fs of
        (Inl e, fs') \<Rightarrow> (Inl (Lib e), fs')
      | (Inr u, fs') \<Rightarrow> (Inr (), fs')) \<and>
   fst (save Image_save [fr] path duration_arg fs) \<noteq> Inl IndexError \<and>
   (\<forall>u fs'. Image_save fr path
             \<lparr>save_all = True, append_images = [], optimize = True,
              duration = (case duration_arg of None \<Rightarrow> 100 | Some d \<Rightarrow> d), loop = 0\<rparr> fs
           = (Inr u, fs')
      \<longrightarrow> save Image_save [fr] path duration_arg fs = (Inr (), fs'))"
  by (auto simp: save_def split: prod.splits sum.splits)

theorem save_single_frame_witness:
  "demo_image_save [5] ''one.gif''
      \<lparr>save_all = True, append_images = [], optimize = True, duration = 100, loop = 0\<rparr> []
     = (Inr (), [(''one.gif'', [[5]], 100, 0)]) \<and>
   save demo_image_save [[5]] ''one.gif'' None [] = (Inr (), [(''one.gif'', [[5]], 100, 0)])"
proof -
  have written: "demo_image_save [5] ''one.gif''
      \<lparr>save_all = True, append_images = [], optimize = True,
       duration = (case None of None \<Rightarrow> 100 | Some d \<Rightarrow> d), loop = 0\<rparr> []
     = (Inr (), [(''one.gif'', [[5]], 100, 0)])"
    by (simp add: demo_image_save_def)
  from save_single_frame [of demo_image_save "[5]" "''one.gif''" None "[]"] written
  have "save demo_image_save [[5]] ''one.gif'' None [] = (Inr (), [(''one.gif'', [[5]], 100, 0)])"
    by blast
  with written show ?thesis by simp
qed

section \<open>Properties of the frame capturer\<close>

subsection \<open>Auxiliary facts\<close>

lemma call_keywords_fresh:
  assumes "k \<notin> fst ` set kw"
  shows "call_keywords [(k, v)] kw = Inr ((k, v) # kw)"
proof -
  from assms have "find (\<lambda>(k', v'). k' \<in> set (map fst [(k, v)])) kw = None"
    by (force simp: find_None_iff)
  then show ?thesis by (simp add: call_keywords_def)
qed

lemma call_keywords_duplicate:
  assumes "k \<in> fst ` set kw"
  shows "call_keywords [(k, v)] kw = Inl (TypeError_multiple_values k)"
proof (cases "find (\<lambda>(k', v'). k' \<in> set (map fst [(k, v)])) kw")
  case None
  with assms show ?thesis by (force simp: find_None_iff)
next
  case (Some p)
  then have "fst p = k"
    by (auto simp: find_Some_iff)
  with Some show ?thesis
    by (cases p) (simp add: call_keywords_def)
qed

lemma frame_unfold:
  "frame G L save_args save_kwargs func args kwargs f =
     (case func args kwargs f of
        (Inl e, f') \<Rightarrow> (Inl (Lib e), f')
      | (Inr plot, f') \<Rightarrow>
          (case type_str plot of
             Inl e \<Rightarrow> (Inl (Lib e), f')
           | Inr name \<Rightarrow>
               if py_in ''altair'' name
               then chart_mode G L save_args save_kwargs BytesIO plot f'
               else imperative_mode L save_args save_kwargs BytesIO f'))"
  by (simp add: frame_def wrapper1_def wrapper2_def)

lemma frame_func_raises:
  "func args kwargs f = (Inl e, f') \<Longrightarrow>
   frame G L save_args save_kwargs func args kwargs f = (Inl (Lib e), f')"
  by (simp add: frame_unfold)

lemma frame_type_raises:
  "func args kwargs f = (Inr plot, f') \<Longrightarrow> type_str plot = Inl e \<Longrightarrow>
   frame G L save_args save_kwargs func args kwargs f = (Inl (Lib e), f')"
  by (simp add: frame_unfold)

lemma frame_chart:
  "func args kwargs f = (Inr plot, f') \<Longrightarrow> type_str plot = Inr name \<Longrightarrow>
   py_in ''altair'' name \<Longrightarrow>
   frame G L save_args save_kwargs func args kwargs f =
     chart_mode G L save_args save_kwargs BytesIO plot f'"
  by (simp add: frame_unfold)

lemma frame_imperative:
  "func args kwargs f = (Inr plot, f') \<Longrightarrow> type_str plot = Inr name \<Longrightarrow>
   \<not> py_in ''altair'' name \<Longrightarrow>
   frame G L save_args save_kwargs func args kwargs f =
     imperative_mode L save_args save_kwargs BytesIO f'"
  by (simp add: frame_unfold)

lemma imperative_mode_duplicate:
  "''format'' \<in> fst ` set save_kwargs \<Longrightarrow>
   imperative_mode L save_args save_kwargs buffer f =
     (Inl (TypeError_multiple_values ''format''), f)"
  by (simp add: imperative_mode_def call_keywords_duplicate)

lemma imperative_mode_fresh:
  "''format'' \<notin> fst ` set save_kwargs \<Longrightarrow>
   imperative_mode L save_args save_kwargs buffer f =
     (case plt_savefig L buffer save_args ((''format'', PyStr ''png'') # save_kwargs) f of
        (Inl e, f') \<Rightarrow> (Inl (Lib e), f')
      | (Inr buffer', f') \<Rightarrow>
          (case plt_close L f' of
             (Inl e, f'') \<Rightarrow> (Inl (Lib e), f'')
           | (Inr u, f'') \<Rightarrow> decode L buffer' f''))"
  by (simp add: imperative_mode_def call_keywords_fresh)

lemma chart_mode_not_installed:
  "\<not> altair_saver_installed G \<Longrightarrow>
   chart_mode G L save_args save_kwargs buffer plot f =
     (Inl (MissingExtension ''pip install gif[altair]''), f)"
  by (simp add: chart_mode_def)

lemma chart_mode_duplicate:
  assumes "load_module (Imported fn) = Inr G" and "''fmt'' \<in> fst ` set save_kwargs"
  shows "chart_mode G L save_args save_kwargs buffer plot f =
     (Inl (TypeError_multiple_values ''fmt''), f)"
proof -
  from assms(1) have "altair_saver_installed G" and "save_alt G = Some fn"
    by auto
  then show ?thesis
    by (simp add: chart_mode_def call_keywords_duplicate [OF assms(2)])
qed

lemma chart_mode_fresh:
  "load_module (Imported fn) = Inr G \<Longrightarrow> ''fmt'' \<notin> fst ` set save_kwargs \<Longrightarrow>
   chart_mode G L save_args save_kwargs buffer plot f =
     (case fn plot buffer save_args ((''fmt'', PyStr ''png'') # save_kwargs) of
        Inl e \<Rightarrow> (Inl (Lib e), f)
      | Inr buffer' \<Rightarrow> decode L buffer' f)"
  by (auto simp: chart_mode_def call_keywords_fresh)

lemma decode_cases:
  "decode L buffer f =
     (case Image_open L (seek buffer 0) of
        Inl e \<Rightarrow> (Inl (Lib e), f)
      | Inr img \<Rightarrow> (Inr img, f))"
  by (simp add: decode_def)


lemma sublist_separator:
  assumes "q \<notin> set xs"
  shows "sublist xs (ys @ q # zs) \<longleftrightarrow> sublist xs ys \<or> sublist xs zs"
proof
  assume "sublist xs (ys @ q # zs)"
  then consider "sublist xs ys" | "sublist xs (q # zs)"
    | xs1 xs2 where "xs = xs1 @ xs2" "suffix xs1 ys" "prefix xs2 (q # zs)"
    by (auto simp: sublist_append)
  then show "sublist xs ys \<or> sublist xs zs"
  proof cases
    case 1
    then show ?thesis by simp
  next
    case 2
    with assms show ?thesis
      by (auto simp: sublist_Cons_right prefix_Cons)
  next
    case 3
    with assms have "xs2 = []"
      by (auto simp: prefix_Cons)
    with 3 show ?thesis by auto
  qed
next
  assume "sublist xs ys \<or> sublist xs zs"
  then show "sublist xs (ys @ q # zs)"
    by (auto simp: sublist_append sublist_Cons_right)
qed

lemma py_in_class_repr: "py_in ''altair'' (class_repr c) \<longleftrightarrow> py_in ''altair'' c"
proof -
  have q: "CHR 0x27 \<notin> set ''altair''" by simp
  have shape: "class_repr c = ''<class '' @ CHR 0x27 # (c @ CHR 0x27 # ''>'')"
    by (simp add: class_repr_def)
  have outer: "sublist ''altair'' (''<class '' @ CHR 0x27 # (c @ CHR 0x27 # ''>'')) \<longleftrightarrow>
      sublist ''altair'' ''<class '' \<or> sublist ''altair'' (c @ CHR 0x27 # ''>'')"
    by (rule sublist_separator [OF q])
  have inner: "sublist ''altair'' (c @ CHR 0x27 # ''>'') \<longleftrightarrow>
      sublist ''altair'' c \<or> sublist ''altair'' ''>''"
    by (rule sublist_separator [OF q])
  have left: "\<not> sublist ''altair'' ''<class ''"
    by (simp add: sublist_Cons_right)
  have right: "\<not> sublist ''altair'' ''>''"
    by (simp add: sublist_Cons_right)
  show ?thesis
    unfolding py_in_def shape outer inner using left right by blast
qed

lemma demo_chart_is_altair:
  "py_in ''altair'' (class_repr ''altair.vegalite.v4.api.Chart'')"
  by (simp add: py_in_class_repr) (simp add: py_in_def sublist_Cons_right)

lemma none_is_not_altair: "\<not> py_in ''altair'' (class_repr ''NoneType'')"
  by (simp add: py_in_class_repr) (simp add: py_in_def sublist_Cons_right)

lemma type_str_builtin:
  assumes "type_str plot = Inr name" and "\<forall>cls p. plot \<noteq> PyObject cls p"
  shows "\<not> py_in ''altair'' name"
  using assms
  by (cases plot) (auto simp: py_in_class_repr, simp_all add: py_in_def sublist_Cons_right)

lemma py_in_type_str:
  assumes "type_str plot = Inr name"
  shows "py_in ''altair'' name \<longleftrightarrow>
     (\<exists>c p. plot = PyObject (Class c) p \<and> py_in ''altair'' c) \<or>
     (\<exists>s p. plot = PyObject (Metaclass (Inr s)) p \<and> py_in ''altair'' s)"
proof (cases "\<exists>cls p. plot = PyObject cls p")
  case True
  then obtain cls p where plot: "plot = PyObject cls p" by blast
  with assms show ?thesis
    by (cases cls) (auto simp: py_in_class_repr)
next
  case False
  with assms have "\<not> py_in ''altair'' name"
    by (intro type_str_builtin) auto
  with False show ?thesis by auto
qed

lemma imperative_mode_success:
  assumes "imperative_mode L save_args save_kwargs buffer0 f1 = (Inr img, f')"
  shows "\<exists>buffer f2.
           ''format'' \<notin> fst ` set save_kwargs \<and>
           plt_savefig L buffer0 save_args ((''format'', PyStr ''png'') # save_kwargs) f1
             = (Inr buffer, f2) \<and>
           plt_close L f2 = (Inr (), f') \<and>
           Image_open L (seek buffer 0) = Inr img"
proof -
  have fresh: "''format'' \<notin> fst ` set save_kwargs"
  proof
    assume "''format'' \<in> fst ` set save_kwargs"
    with assms show False by (simp add: imperative_mode_duplicate)
  qed
  obtain r2 f2 where sf:
    "plt_savefig L buffer0 save_args ((''format'', PyStr ''png'') # save_kwargs) f1 = (r2, f2)"
    by (cases "plt_savefig L buffer0 save_args ((''format'', PyStr ''png'') # save_kwargs) f1")
  with assms fresh obtain buffer where r2: "r2 = Inr buffer"
    by (cases r2) (simp_all add: imperative_mode_fresh)
  obtain r3 f3 where cl: "plt_close L f2 = (r3, f3)"
    by (cases "plt_close L f2")
  with assms fresh sf r2 have r3: "r3 = Inr ()"
    by (cases r3) (simp_all add: imperative_mode_fresh)
  from assms fresh sf r2 cl r3 have "decode L buffer f3 = (Inr img, f')"
    by (simp add: imperative_mode_fresh)
  then have "f3 = f'" and "Image_open L (seek buffer 0) = Inr img"
    by (auto simp: decode_cases split: sum.splits)
  with fresh sf r2 cl r3 show ?thesis by auto
qed

lemma chart_mode_success:
  assumes "chart_mode G L save_args save_kwargs buffer0 plot f1 = (Inr img, f')"
  shows "\<exists>fn buffer.
           altair_saver_installed G \<and> save_alt G = Some fn \<and>
           ''fmt'' \<notin> fst ` set save_kwargs \<and>
           fn plot buffer0 save_args ((''fmt'', PyStr ''png'') # save_kwargs) = Inr buffer \<and>
           Image_open L (seek buffer 0) = Inr img \<and> f' = f1"
proof -
  from assms have inst: "altair_saver_installed G"
    by (auto simp: chart_mode_def split: if_splits)
  with assms obtain fn where fn: "save_alt G = Some fn"
    by (cases "save_alt G") (simp_all add: chart_mode_def)
  have fresh: "''fmt'' \<notin> fst ` set save_kwargs"
  proof
    assume "''fmt'' \<in> fst ` set save_kwargs"
    then have "call_keywords [(''fmt'', PyStr ''png'')] save_kwargs
        = (Inl (TypeError_multiple_values ''fmt'') :: 'a exn + 'a kwargs)"
      by (rule call_keywords_duplicate)
    with assms inst fn show False by (simp add: chart_mode_def)
  qed
  then have kw: "call_keywords [(''fmt'', PyStr ''png'')] save_kwargs
        = (Inr ((''fmt'', PyStr ''png'') # save_kwargs) :: 'a exn + 'a kwargs)"
    by (rule call_keywords_fresh)
  from assms inst fn kw obtain buffer where
    b: "fn plot buffer0 save_args ((''fmt'', PyStr ''png'') # save_kwargs) = Inr buffer"
    by (cases "fn plot buffer0 save_args ((''fmt'', PyStr ''png'') # save_kwargs)")
      (simp_all add: chart_mode_def)
  with assms inst fn kw have "decode L buffer f1 = (Inr img, f')"
    by (simp add: chart_mode_def)
  then have "f' = f1" and "Image_open L (seek buffer 0) = Inr img"
    by (auto simp: decode_cases split: sum.splits)
  with inst fn fresh b show ?thesis by auto
qed







lemma imperative_mode_returns:
  assumes "''format'' \<notin> fst ` set save_kwargs"
    and "plt_savefig L buffer0 save_args ((''format'', PyStr ''png'') # save_kwargs) f1
           = (Inr buffer, f2)"
    and "plt_close L f2 = (Inr u, f3)"
    and "Image_open L (seek buffer 0) = Inr img"
  shows "imperative_mode L save_args save_kwargs buffer0 f1 = (Inr img, f3)"
  using assms by (simp add: imperative_mode_fresh decode_cases)

lemma chart_mode_returns:
  assumes "load_module (Imported fn) = Inr G"
    and "''fmt'' \<notin> fst ` set save_kwargs"
    and "fn plot buffer0 save_args ((''fmt'', PyStr ''png'') # save_kwargs) = Inr buffer"
    and "Image_open L (seek buffer 0) = Inr img"
  shows "chart_mode G L save_args save_kwargs buffer0 plot f1 = (Inr img, f1)"
  using assms(3,4) by (simp add: chart_mode_fresh [OF assms(1,2)] decode_cases)

lemma type_str_chart:
  "type_str (PyObject (Class ''altair.vegalite.v4.api.Chart'') ''chart'')
     = (Inr (class_repr ''altair.vegalite.v4.api.Chart'') :: string + string)"
  by simp

lemma type_str_none: "type_str PyNone = (Inr (class_repr ''NoneType'') :: string + string)"
  by simp

lemma altair_like_is_altair: "py_in ''altair'' ''<altair-like thing>''"
  by (simp add: py_in_def sublist_Cons_right)

lemma enum_is_not_altair: "\<not> py_in ''altair'' (enum_repr ''Kind'')"
  by (simp add: py_in_def enum_repr_def sublist_Cons_right)

subsection \<open>The claims\<close>

text \<open>
  C1. When \<^verbatim>\<open>altair_saver\<close> was not found at module load time and the plotting function
  returns a value whose type name contains \<^verbatim>\<open>altair\<close>, the wrapped function raises
  \<open>MissingExtension\<close> with the message \<^verbatim>\<open>pip install gif[altair]\<close>. The result does not depend
  on the libraries and the figure state is the one the plotting function left: nothing
  has been rendered.
\<close>

theorem chart_without_adapter_raises:
  assumes "load_module ModuleNotFoundError = Inr G"
    and "func args kwargs f = (Inr plot, f')"
    and "type_str plot = Inr name"
    and "py_in ''altair'' name"
  shows "frame G L save_args save_kwargs func args kwargs f =
           (Inl (MissingExtension ''pip install gif[altair]''), f')"
proof -
  from assms(1) have "\<not> altair_saver_installed G" by auto
  with assms(2,3,4) show ?thesis
    by (simp add: frame_chart chart_mode_not_installed)
qed

theorem chart_without_adapter_raises_witness:
  "load_module (ModuleNotFoundError :: string import_outcome) =
     Inr \<lparr>altair_saver_installed = False, save_alt = None\<rparr> \<and>
   demo_chart [PyInt 1] [] [] =
     (Inr (PyObject (Class ''altair.vegalite.v4.api.Chart'') ''chart''), []) \<and>
   type_str (PyObject (Class ''altair.vegalite.v4.api.Chart'') ''chart'')
     = (Inr (class_repr ''altair.vegalite.v4.api.Chart'') :: string + string) \<and>
   py_in ''altair'' (class_repr ''altair.vegalite.v4.api.Chart'') \<and>
   frame \<lparr>altair_saver_installed = False, save_alt = None\<rparr> demo_libraries
       [] [(''dpi'', PyInt 300)] demo_chart [PyInt 1] [] [] =
     (Inl (MissingExtension ''pip install gif[altair]''), [])"
proof -
  have loaded: "load_module (ModuleNotFoundError :: string import_outcome) =
     Inr \<lparr>altair_saver_installed = False, save_alt = None\<rparr>" by simp
  have drawn: "demo_chart [PyInt 1] [] [] =
     (Inr (PyObject (Class ''altair.vegalite.v4.api.Chart'') ''chart''), [])"
    by (simp add: demo_chart_def)
  from chart_without_adapter_raises [of _ demo_chart "[PyInt 1]" "[]" "[]", OF loaded drawn
      type_str_chart demo_chart_is_altair]
    loaded drawn type_str_chart demo_chart_is_altair
  show ?thesis by simp
qed

text \<open>
  C4, as stated, fails: the value returned may be of a class that cannot be printed,
  because its metaclass raises in \<^verbatim>\<open>__repr__\<close>. Then \<^verbatim>\<open>str(type(plot))\<close> raises, the exception
  leaves the wrapped function, and neither branch is entered, although each branch
  would have returned an image.
\<close>

theorem unreadable_type_name_counterexample:
  "demo_returning (PyObject (Metaclass (Inl ''RuntimeError'')) ''odd'') [] [] [] =
     (Inr (PyObject (Metaclass (Inl ''RuntimeError'')) ''odd''), [9]) \<and>
   type_str (PyObject (Metaclass (Inl ''RuntimeError'')) ''odd'')
     = (Inl ''RuntimeError'' :: string + string) \<and>
   frame \<lparr>altair_saver_installed = True, save_alt = Some demo_save_alt\<rparr> demo_libraries [] []
       (demo_returning (PyObject (Metaclass (Inl ''RuntimeError'')) ''odd'')) [] [] [] =
     (Inl (Lib ''RuntimeError''), [9]) \<and>
   imperative_mode demo_libraries [] [] BytesIO [9] = (Inr [9], []) \<and>
   chart_mode \<lparr>altair_saver_installed = True, save_alt = Some demo_save_alt\<rparr> demo_libraries [] []
       BytesIO (PyObject (Metaclass (Inl ''RuntimeError'')) ''odd'') [9] = (Inr [7], [9])"
proof -
  let ?v = "PyObject (Metaclass (Inl ''RuntimeError'')) ''odd'' :: string pyval"
  let ?G = "\<lparr>altair_saver_installed = True, save_alt = Some demo_save_alt\<rparr>"
  have returned: "demo_returning ?v [] [] [] = (Inr ?v, [9])"
    by (simp add: demo_returning_def)
  have unreadable: "type_str ?v = Inl ''RuntimeError''"
    by simp
  have raised: "frame ?G demo_libraries [] [] (demo_returning ?v) [] [] []
      = (Inl (Lib ''RuntimeError''), [9])"
    using returned unreadable by (rule frame_type_raises)
  have fresh: "''format'' \<notin> fst ` set ([] :: string kwargs)" by simp
  have imperative: "imperative_mode demo_libraries [] [] BytesIO [9] = (Inr [9], [])"
    by (simp add: imperative_mode_fresh [OF fresh] decode_cases demo_libraries_def
        demo_savefig_def demo_close_def demo_open_def BytesIO_def seek_def)
  have loaded: "load_module (Imported demo_save_alt) = Inr ?G" by simp
  have fresh': "''fmt'' \<notin> fst ` set ([] :: string kwargs)" by simp
  have chart: "chart_mode ?G demo_libraries [] [] BytesIO ?v [9] = (Inr [7], [9])"
    by (simp add: chart_mode_fresh [OF loaded fresh'] decode_cases demo_libraries_def
        demo_save_alt_def demo_open_def BytesIO_def seek_def)
  from returned unreadable raised imperative chart show ?thesis by simp
qed

text \<open>
  C4, amended. For every value the plotting function returns whose type name can be
  read, the mode is decided by that name: the chart branch is taken exactly when
  \<^verbatim>\<open>str(type(plot))\<close> contains \<^verbatim>\<open>altair\<close>, and the imperative branch otherwise, \<^verbatim>\<open>None\<close>
  included. The name is the one the metaclass prints: for a class whose metaclass is
  \<^verbatim>\<open>type\<close> it contains \<^verbatim>\<open>altair\<close> exactly when the qualified name does. When reading the name
  raises, that exception is raised by the wrapped function.
\<close>

theorem mode_selection_by_type_name:
  assumes "func args kwargs f = (Inr plot, f')"
  shows "(\<forall>name. type_str plot = Inr name \<and> py_in ''altair'' name \<longrightarrow>
            frame G L save_args save_kwargs func args kwargs f =
              chart_mode G L save_args save_kwargs BytesIO plot f') \<and>
         (\<forall>name. type_str plot = Inr name \<and> \<not> py_in ''altair'' name \<longrightarrow>
            frame G L save_args save_kwargs func args kwargs f =
              imperative_mode L save_args save_kwargs BytesIO f') \<and>
         (plot = PyNone \<longrightarrow>
            frame G L save_args save_kwargs func args kwargs f =
              imperative_mode L save_args save_kwargs BytesIO f') \<and>
         (\<forall>name. type_str plot = Inr name \<longrightarrow>
            (py_in ''altair'' name \<longleftrightarrow>
               (\<exists>c p. plot = PyObject (Class c) p \<and> py_in ''altair'' c) \<or>
               (\<exists>s p. plot = PyObject (Metaclass (Inr s)) p \<and> py_in ''altair'' s))) \<and>
         (\<forall>e. type_str plot = Inl e \<longrightarrow>
            frame G L save_args save_kwargs func args kwargs f = (Inl (Lib e), f'))"
proof (intro conjI allI impI)
  fix name
  assume "type_str plot = Inr name \<and> py_in ''altair'' name"
  with assms show "frame G L save_args save_kwargs func args kwargs f =
      chart_mode G L save_args save_kwargs BytesIO plot f'"
    by (simp add: frame_chart)
next
  fix name
  assume "type_str plot = Inr name \<and> \<not> py_in ''altair'' name"
  with assms show "frame G L save_args save_kwargs func args kwargs f =
      imperative_mode L save_args save_kwargs BytesIO f'"
    by (simp add: frame_imperative)
next
  assume "plot = PyNone"
  with assms none_is_not_altair show "frame G L save_args save_kwargs func args kwargs f =
      imperative_mode L save_args save_kwargs BytesIO f'"
    by (simp add: frame_imperative)
next
  fix name
  assume "type_str plot = Inr name"
  then show "py_in ''altair'' name \<longleftrightarrow>
      (\<exists>c p. plot = PyObject (Class c) p \<and> py_in ''altair'' c) \<or>
      (\<exists>s p. plot = PyObject (Metaclass (Inr s)) p \<and> py_in ''altair'' s)"
    by (rule py_in_type_str)
next
  fix e
  assume "type_str plot = Inl e"
  with assms show "frame G L save_args save_kwargs func args kwargs f = (Inl (Lib e), f')"
    by (rule frame_type_raises)
qed

theorem mode_selection_by_type_name_witness:
  "demo_chart [] [] [] = (Inr (PyObject (Class ''altair.vegalite.v4.api.Chart'') ''chart''), []) \<and>
   type_str (PyObject (Class ''altair.vegalite.v4.api.Chart'') ''chart'')
     = (Inr (class_repr ''altair.vegalite.v4.api.Chart'') :: string + string) \<and>
   py_in ''altair'' (class_repr ''altair.vegalite.v4.api.Chart'') \<and>
   frame \<lparr>altair_saver_installed = True, save_alt = Some demo_save_alt\<rparr> demo_libraries
       [] [] demo_chart [] [] [] =
     chart_mode \<lparr>altair_saver_installed = True, save_alt = Some demo_save_alt\<rparr> demo_libraries
       [] [] BytesIO (PyObject (Class ''altair.vegalite.v4.api.Chart'') ''chart'') [] \<and>
   type_str (PyObject (Metaclass (Inr ''<altair-like thing>'')) ''x'')
     = (Inr ''<altair-like thing>'' :: string + string) \<and>
   py_in ''altair'' ''<altair-like thing>'' \<and>
   frame \<lparr>altair_saver_installed = True, save_alt = Some demo_save_alt\<rparr> demo_libraries
       [] [] (demo_returning (PyObject (Metaclass (Inr ''<altair-like thing>'')) ''x'')) [] [] [] =
     chart_mode \<lparr>altair_saver_installed = True, save_alt = Some demo_save_alt\<rparr> demo_libraries
       [] [] BytesIO (PyObject (Metaclass (Inr ''<altair-like thing>'')) ''x'') [9] \<and>
   type_str (PyObject (Metaclass (Inr (enum_repr ''Kind''))) ''member'')
     = (Inr (enum_repr ''Kind'') :: string + string) \<and>
   \<not> py_in ''altair'' (enum_repr ''Kind'') \<and>
   frame \<lparr>altair_saver_installed = True, save_alt = Some demo_save_alt\<rparr> demo_libraries
       [] [] (demo_returning (PyObject (Metaclass (Inr (enum_repr ''Kind''))) ''member'')) [] [] [] =
     imperative_mode demo_libraries [] [] BytesIO [9] \<and>
   demo_plot [PyInt 3] [] [] = (Inr PyNone, [3]) \<and>
   frame \<lparr>altair_saver_installed = True, save_alt = Some demo_save_alt\<rparr> demo_libraries
       [] [] demo_plot [PyInt 3] [] [] =
     imperative_mode demo_libraries [] [] BytesIO [3] \<and>
   type_str (PyObject (Metaclass (Inl ''RuntimeError'')) ''odd'')
     = (Inl ''RuntimeError'' :: string + string) \<and>
   frame \<lparr>altair_saver_installed = True, save_alt = Some demo_save_alt\<rparr> demo_libraries
       [] [] (demo_returning (PyObject (Metaclass (Inl ''RuntimeError'')) ''odd'')) [] [] [] =
     (Inl (Lib ''RuntimeError''), [9])"
proof -
  let ?G = "\<lparr>altair_saver_installed = True, save_alt = Some demo_save_alt\<rparr>"
  let ?like = "PyObject (Metaclass (Inr ''<altair-like thing>'')) ''x'' :: string pyval"
  let ?enum = "PyObject (Metaclass (Inr (enum_repr ''Kind''))) ''member'' :: string pyval"
  let ?odd = "PyObject (Metaclass (Inl ''RuntimeError'')) ''odd'' :: string pyval"
  have chart: "demo_chart [] [] [] =
      (Inr (PyObject (Class ''altair.vegalite.v4.api.Chart'') ''chart''), [])"
    by (simp add: demo_chart_def)
  have plot: "demo_plot [PyInt 3] [] [] = (Inr PyNone, [3])"
    by (simp add: demo_plot_def)
  have like: "demo_returning ?like [] [] [] = (Inr ?like, [9])"
    and enum: "demo_returning ?enum [] [] [] = (Inr ?enum, [9])"
    and odd: "demo_returning ?odd [] [] [] = (Inr ?odd, [9])"
    by (simp_all add: demo_returning_def)
  have t_like: "type_str ?like = Inr ''<altair-like thing>''"
    and t_enum: "type_str ?enum = Inr (enum_repr ''Kind'')"
    and t_odd: "type_str ?odd = Inl ''RuntimeError''"
    by simp_all
  from mode_selection_by_type_name [of demo_chart "[]" "[]" "[]", OF chart, of ?G demo_libraries "[]" "[]"]
    type_str_chart demo_chart_is_altair
  have r1: "frame ?G demo_libraries [] [] demo_chart [] [] [] =
      chart_mode ?G demo_libraries [] [] BytesIO
        (PyObject (Class ''altair.vegalite.v4.api.Chart'') ''chart'') []"
    by blast
  from mode_selection_by_type_name [of "demo_returning ?like" "[]" "[]" "[]", OF like,
      of ?G demo_libraries "[]" "[]"] t_like altair_like_is_altair
  have r2: "frame ?G demo_libraries [] [] (demo_returning ?like) [] [] [] =
      chart_mode ?G demo_libraries [] [] BytesIO ?like [9]"
    by blast
  from mode_selection_by_type_name [of "demo_returning ?enum" "[]" "[]" "[]", OF enum,
      of ?G demo_libraries "[]" "[]"] t_enum enum_is_not_altair
  have r3: "frame ?G demo_libraries [] [] (demo_returning ?enum) [] [] [] =
      imperative_mode demo_libraries [] [] BytesIO [9]"
    by blast
  from mode_selection_by_type_name [of demo_plot "[PyInt 3]" "[]" "[]", OF plot,
      of ?G demo_libraries "[]" "[]"]
  have r4: "frame ?G demo_libraries [] [] demo_plot [PyInt 3] [] [] =
      imperative_mode demo_libraries [] [] BytesIO [3]"
    by blast
  from mode_selection_by_type_name [of "demo_returning ?odd" "[]" "[]" "[]", OF odd,
      of ?G demo_libraries "[]" "[]"] t_odd
  have r5: "frame ?G demo_libraries [] [] (demo_returning ?odd) [] [] [] =
      (Inl (Lib ''RuntimeError''), [9])"
    by blast
  from chart plot type_str_chart demo_chart_is_altair t_like altair_like_is_altair t_enum
    enum_is_not_altair t_odd r1 r2 r3 r4 r5
  show ?thesis by blast
qed

text \<open>
  C3. A capture on the imperative branch that returns an image has rendered the current
  figure to the fresh in-memory buffer with \<^verbatim>\<open>format="png"\<close> and has then closed the
  figure: the figure state handed to the next capture is the one \<^verbatim>\<open>plt.close()\<close> returned,
  so whatever \<^verbatim>\<open>plt.close()\<close> guarantees of the state it leaves (a clean canvas) holds
  when the next capture starts.
\<close>

theorem imperative_capture_renders_then_closes:
  assumes "func args kwargs f = (Inr plot, f1)"
    and "type_str plot = Inr name"
    and "\<not> py_in ''altair'' name"
    and "frame G L save_args save_kwargs func args kwargs f = (Inr img, f')"
    and "\<And>s u s'. plt_close L s = (Inr u, s') \<Longrightarrow> clean s'"
  shows "\<exists>buffer f2.
           plt_savefig L BytesIO save_args ((''format'', PyStr ''png'') # save_kwargs) f1
             = (Inr buffer, f2) \<and>
           plt_close L f2 = (Inr (), f') \<and>
           Image_open L (seek buffer 0) = Inr img \<and>
           clean f'"
proof -
  from assms(1,2,3,4) have "imperative_mode L save_args save_kwargs BytesIO f1 = (Inr img, f')"
    by (simp add: frame_imperative)
  from imperative_mode_success [OF this] obtain buffer f2 where
    rendered: "plt_savefig L BytesIO save_args ((''format'', PyStr ''png'') # save_kwargs) f1
      = (Inr buffer, f2)"
    and closed: "plt_close L f2 = (Inr (), f')"
    and decoded: "Image_open L (seek buffer 0) = Inr img"
    by blast
  from closed have "clean f'" by (rule assms(5))
  with rendered closed decoded show ?thesis by blast
qed

theorem imperative_capture_renders_then_closes_witness:
  "demo_plot [PyInt 3] [] [8, 2] = (Inr PyNone, [8, 2, 3]) \<and>
   type_str PyNone = (Inr (class_repr ''NoneType'') :: string + string) \<and>
   \<not> py_in ''altair'' (class_repr ''NoneType'') \<and>
   frame \<lparr>altair_saver_installed = False, save_alt = None\<rparr> demo_libraries
       [] [(''dpi'', PyInt 300)] demo_plot [PyInt 3] [] [8, 2] = (Inr [8, 2, 3], []) \<and>
   (\<exists>buffer f2.
      plt_savefig demo_libraries BytesIO [] [(''format'', PyStr ''png''), (''dpi'', PyInt 300)]
          [8, 2, 3] = (Inr buffer, f2) \<and>
      plt_close demo_libraries f2 = (Inr (), []) \<and>
      Image_open demo_libraries (seek buffer 0) = Inr [8, 2, 3] \<and> [] = ([] :: nat list))"
proof -
  have plot: "demo_plot [PyInt 3] [] [8, 2] = (Inr PyNone, [8, 2, 3])"
    by (simp add: demo_plot_def)
  have run: "frame \<lparr>altair_saver_installed = False, save_alt = None\<rparr> demo_libraries
       [] [(''dpi'', PyInt 300)] demo_plot [PyInt 3] [] [8, 2] = (Inr [8, 2, 3], [])"
    unfolding frame_imperative [of demo_plot "[PyInt 3]" "[]" "[8, 2]", OF plot type_str_none
        none_is_not_altair]
    by (simp add: imperative_mode_fresh decode_cases
        demo_libraries_def demo_savefig_def demo_close_def demo_open_def BytesIO_def seek_def)
  have closes: "\<And>s u s'. plt_close demo_libraries s = (Inr u, s') \<Longrightarrow> s' = []"
    by (auto simp: demo_libraries_def demo_close_def)
  from imperative_capture_renders_then_closes
    [where func = demo_plot and args = "[PyInt 3]" and kwargs = "[]" and f = "[8, 2]"
      and L = demo_libraries and clean = "\<lambda>s. s = []",
      OF plot type_str_none none_is_not_altair run closes]
    plot type_str_none none_is_not_altair run
  show ?thesis by simp
qed

text \<open>
  C9. On the imperative branch, when \<^verbatim>\<open>plt.savefig\<close> raises, the exception leaves the
  wrapped function with the figure state as \<^verbatim>\<open>plt.savefig\<close> left it. \<^verbatim>\<open>plt.close()\<close> is not
  called: the outcome is the same whatever \<^verbatim>\<open>plt.close\<close> would do.
\<close>

theorem failed_savefig_skips_close:
  assumes "func args kwargs f = (Inr plot, f1)"
    and "type_str plot = Inr name"
    and "\<not> py_in ''altair'' name"
    and "''format'' \<notin> fst ` set save_kwargs"
    and "plt_savefig L BytesIO save_args ((''format'', PyStr ''png'') # save_kwargs) f1 = (Inl e, f2)"
  shows "frame G L save_args save_kwargs func args kwargs f = (Inl (Lib e), f2) \<and>
         (\<forall>c. frame G (L\<lparr>plt_close := c\<rparr>) save_args save_kwargs func args kwargs f
                = (Inl (Lib e), f2))"
  using assms by (simp add: frame_imperative imperative_mode_fresh)

theorem failed_savefig_skips_close_witness:
  "demo_plot [PyInt 3] [] [] = (Inr PyNone, [3]) \<and>
   type_str PyNone = (Inr (class_repr ''NoneType'') :: string + string) \<and>
   \<not> py_in ''altair'' (class_repr ''NoneType'') \<and>
   ''format'' \<notin> fst ` set [(''dpi'', PyInt 0 :: string pyval)] \<and>
   plt_savefig demo_libraries BytesIO [] [(''format'', PyStr ''png''), (''dpi'', PyInt 0)] [3]
     = (Inl ''ValueError'', [3]) \<and>
   plt_close demo_libraries [3] = (Inr (), []) \<and>
   frame \<lparr>altair_saver_installed = False, save_alt = None\<rparr> demo_libraries
       [] [(''dpi'', PyInt 0)] demo_plot [PyInt 3] [] [] = (Inl (Lib ''ValueError''), [3])"
proof -
  have plot: "demo_plot [PyInt 3] [] [] = (Inr PyNone, [3])"
    by (simp add: demo_plot_def)
  have fresh: "''format'' \<notin> fst ` set [(''dpi'', PyInt 0 :: string pyval)]"
    by simp
  have fails: "plt_savefig demo_libraries BytesIO []
      ((''format'', PyStr ''png'') # [(''dpi'', PyInt 0)]) [3] = (Inl ''ValueError'', [3])"
    by (simp add: demo_libraries_def demo_savefig_def)
  have closes: "plt_close demo_libraries [3] = (Inr (), [])"
    by (simp add: demo_libraries_def demo_close_def)
  from failed_savefig_skips_close [of demo_plot "[PyInt 3]" "[]" "[]", OF plot type_str_none
      none_is_not_altair fresh fails]
    plot type_str_none none_is_not_altair fresh fails closes
  show ?thesis by simp
qed

text \<open>
  C7. The wrapped function hands its positional and keyword arguments to the plotting
  function as they are, and what the plotting function raises on them is raised. When
  the plotting function has returned and the rendering, the closing of the figure and
  the decoding succeed, the wrapped function returns the decoded image, on the
  imperative branch and on the chart branch. Conversely, every value the wrapped
  function returns is the image decoded from the rewound buffer that \<^verbatim>\<open>save_alt\<close> or
  \<^verbatim>\<open>plt.savefig\<close> has written with the PNG format, not the value the plotting function
  returned.
\<close>

theorem wrapped_function_returns_decoded_image:
  "(\<forall>e f1. func args kwargs f = (Inl e, f1) \<longrightarrow>
      frame G L save_args save_kwargs func args kwargs f = (Inl (Lib e), f1)) \<and>
   (\<forall>plot f1 name buffer f2 u f3 img.
      func args kwargs f = (Inr plot, f1) \<and> type_str plot = Inr name \<and>
      \<not> py_in ''altair'' name \<and> ''format'' \<notin> fst ` set save_kwargs \<and>
      plt_savefig L BytesIO save_args ((''format'', PyStr ''png'') # save_kwargs) f1
        = (Inr buffer, f2) \<and>
      plt_close L f2 = (Inr u, f3) \<and> Image_open L (seek buffer 0) = Inr img \<longrightarrow>
      frame G L save_args save_kwargs func args kwargs f = (Inr img, f3)) \<and>
   (\<forall>plot f1 name fn buffer img.
      func args kwargs f = (Inr plot, f1) \<and> type_str plot = Inr name \<and>
      py_in ''altair'' name \<and> load_module (Imported fn) = Inr G \<and>
      ''fmt'' \<notin> fst ` set save_kwargs \<and>
      fn plot BytesIO save_args ((''fmt'', PyStr ''png'') # save_kwargs) = Inr buffer \<and>
      Image_open L (seek buffer 0) = Inr img \<longrightarrow>
      frame G L save_args save_kwargs func args kwargs f = (Inr img, f1)) \<and>
   (\<forall>img f'. frame G L save_args save_kwargs func args kwargs f = (Inr img, f') \<longrightarrow>
      (\<exists>plot f1 name buffer.
         func args kwargs f = (Inr plot, f1) \<and> type_str plot = Inr name \<and>
         ((py_in ''altair'' name \<and>
           (\<exists>fn. save_alt G = Some fn \<and>
              fn plot BytesIO save_args ((''fmt'', PyStr ''png'') # save_kwargs) = Inr buffer)) \<or>
          (\<not> py_in ''altair'' name \<and>
           (\<exists>f2. plt_savefig L BytesIO save_args ((''format'', PyStr ''png'') # save_kwargs) f1
                   = (Inr buffer, f2)))) \<and>
         Image_open L (seek buffer 0) = Inr img))"
proof (intro conjI allI impI)
  fix e f1
  assume "func args kwargs f = (Inl e, f1)"
  then show "frame G L save_args save_kwargs func args kwargs f = (Inl (Lib e), f1)"
    by (rule frame_func_raises)
next
  fix plot f1 name buffer f2 u f3 img
  assume h: "func args kwargs f = (Inr plot, f1) \<and> type_str plot = Inr name \<and>
      \<not> py_in ''altair'' name \<and> ''format'' \<notin> fst ` set save_kwargs \<and>
      plt_savefig L BytesIO save_args ((''format'', PyStr ''png'') # save_kwargs) f1
        = (Inr buffer, f2) \<and>
      plt_close L f2 = (Inr u, f3) \<and> Image_open L (seek buffer 0) = Inr img"
  then have "imperative_mode L save_args save_kwargs BytesIO f1 = (Inr img, f3)"
    by (intro imperative_mode_returns) blast+
  with h show "frame G L save_args save_kwargs func args kwargs f = (Inr img, f3)"
    by (simp add: frame_imperative)
next
  fix plot f1 name fn buffer img
  assume h: "func args kwargs f = (Inr plot, f1) \<and> type_str plot = Inr name \<and>
      py_in ''altair'' name \<and> load_module (Imported fn) = Inr G \<and>
      ''fmt'' \<notin> fst ` set save_kwargs \<and>
      fn plot BytesIO save_args ((''fmt'', PyStr ''png'') # save_kwargs) = Inr buffer \<and>
      Image_open L (seek buffer 0) = Inr img"
  then have call: "func args kwargs f = (Inr plot, f1)"
    and name: "type_str plot = Inr name" "py_in ''altair'' name"
    and loaded: "load_module (Imported fn) = Inr G"
    and fresh: "''fmt'' \<notin> fst ` set save_kwargs"
    and rendered: "fn plot BytesIO save_args ((''fmt'', PyStr ''png'') # save_kwargs) = Inr buffer"
    and decoded: "Image_open L (seek buffer 0) = Inr img"
    by blast+
  from loaded fresh rendered decoded
  have "chart_mode G L save_args save_kwargs BytesIO plot f1 = (Inr img, f1)"
    by (rule chart_mode_returns)
  with call name show "frame G L save_args save_kwargs func args kwargs f = (Inr img, f1)"
    by (simp add: frame_chart)
next
  fix img f'
  assume run: "frame G L save_args save_kwargs func args kwargs f = (Inr img, f')"
  obtain r f1 where call: "func args kwargs f = (r, f1)"
    by (cases "func args kwargs f")
  with run obtain plot where r: "r = Inr plot"
    by (cases r) (simp_all add: frame_func_raises)
  from run call r obtain name where name: "type_str plot = Inr name"
    by (cases "type_str plot") (simp_all add: frame_type_raises)
  show "\<exists>plot f1 name buffer.
         func args kwargs f = (Inr plot, f1) \<and> type_str plot = Inr name \<and>
         ((py_in ''altair'' name \<and>
           (\<exists>fn. save_alt G = Some fn \<and>
              fn plot BytesIO save_args ((''fmt'', PyStr ''png'') # save_kwargs) = Inr buffer)) \<or>
          (\<not> py_in ''altair'' name \<and>
           (\<exists>f2. plt_savefig L BytesIO save_args ((''format'', PyStr ''png'') # save_kwargs) f1
                   = (Inr buffer, f2)))) \<and>
         Image_open L (seek buffer 0) = Inr img"
  proof (cases "py_in ''altair'' name")
    case True
    with run call r name
    have "chart_mode G L save_args save_kwargs BytesIO plot f1 = (Inr img, f')"
      by (simp add: frame_chart)
    from chart_mode_success [OF this] True call r name show ?thesis by blast
  next
    case False
    with run call r name
    have "imperative_mode L save_args save_kwargs BytesIO f1 = (Inr img, f')"
      by (simp add: frame_imperative)
    from imperative_mode_success [OF this] False call r name show ?thesis by blast
  qed
qed

theorem wrapped_function_returns_decoded_image_witness:
  "demo_plot [] [(''i'', PyInt 3)] [] = (Inl ''TypeError'', []) \<and>
   frame \<lparr>altair_saver_installed = True, save_alt = Some demo_save_alt\<rparr> demo_libraries
       [] [(''dpi'', PyInt 300)] demo_plot [] [(''i'', PyInt 3)] [] = (Inl (Lib ''TypeError''), []) \<and>
   demo_plot [PyInt 3] [] [] = (Inr PyNone, [3]) \<and>
   type_str PyNone = (Inr (class_repr ''NoneType'') :: string + string) \<and>
   \<not> py_in ''altair'' (class_repr ''NoneType'') \<and>
   ''format'' \<notin> fst ` set [(''dpi'', PyInt 300 :: string pyval)] \<and>
   plt_savefig demo_libraries BytesIO [] [(''format'', PyStr ''png''), (''dpi'', PyInt 300)] [3]
     = (Inr \<lparr>content = [3], pos = 1\<rparr>, [3]) \<and>
   plt_close demo_libraries [3] = (Inr (), []) \<and>
   Image_open demo_libraries (seek \<lparr>content = [3], pos = 1\<rparr> 0) = Inr [3] \<and>
   frame \<lparr>altair_saver_installed = True, save_alt = Some demo_save_alt\<rparr> demo_libraries
       [] [(''dpi'', PyInt 300)] demo_plot [PyInt 3] [] [] = (Inr [3], []) \<and>
   demo_chart [] [] [] =
     (Inr (PyObject (Class ''altair.vegalite.v4.api.Chart'') ''chart''), []) \<and>
   type_str (PyObject (Class ''altair.vegalite.v4.api.Chart'') ''chart'')
     = (Inr (class_repr ''altair.vegalite.v4.api.Chart'') :: string + string) \<and>
   py_in ''altair'' (class_repr ''altair.vegalite.v4.api.Chart'') \<and>
   load_module (Imported demo_save_alt) =
     Inr \<lparr>altair_saver_installed = True, save_alt = Some demo_save_alt\<rparr> \<and>
   ''fmt'' \<notin> fst ` set [(''dpi'', PyInt 300 :: string pyval)] \<and>
   demo_save_alt (PyObject (Class ''altair.vegalite.v4.api.Chart'') ''chart'') BytesIO []
       [(''fmt'', PyStr ''png''), (''dpi'', PyInt 300)] = Inr \<lparr>content = [7], pos = 1\<rparr> \<and>
   Image_open demo_libraries (seek \<lparr>content = [7], pos = 1\<rparr> 0) = Inr [7] \<and>
   frame \<lparr>altair_saver_installed = True, save_alt = Some demo_save_alt\<rparr> demo_libraries
       [] [(''dpi'', PyInt 300)] demo_chart [] [] [] = (Inr [7], [])"
proof -
  let ?G = "\<lparr>altair_saver_installed = True, save_alt = Some demo_save_alt\<rparr>"
  let ?chart = "PyObject (Class ''altair.vegalite.v4.api.Chart'') ''chart'' :: string pyval"
  note inst = wrapped_function_returns_decoded_image
    [where G = ?G and L = demo_libraries and save_args = "[]"
      and save_kwargs = "[(''dpi'', PyInt 300)]" and f = "[]"]
  have rejects: "demo_plot [] [(''i'', PyInt 3)] [] = (Inl ''TypeError'', [])"
    by (simp add: demo_plot_def)
  with inst [where func = demo_plot and args = "[]" and kwargs = "[(''i'', PyInt 3)]"]
  have r1: "frame ?G demo_libraries [] [(''dpi'', PyInt 300)] demo_plot [] [(''i'', PyInt 3)] []
      = (Inl (Lib ''TypeError''), [])"
    by blast
  have plot: "demo_plot [PyInt 3] [] [] = (Inr PyNone, [3])"
    by (simp add: demo_plot_def)
  have fresh: "''format'' \<notin> fst ` set [(''dpi'', PyInt 300 :: string pyval)]"
    by simp
  have rendered: "plt_savefig demo_libraries BytesIO []
      ((''format'', PyStr ''png'') # [(''dpi'', PyInt 300)]) [3]
      = (Inr \<lparr>content = [3], pos = 1\<rparr>, [3])"
    by (simp add: demo_libraries_def demo_savefig_def BytesIO_def)
  have closed: "plt_close demo_libraries [3] = (Inr (), [])"
    by (simp add: demo_libraries_def demo_close_def)
  have decoded: "Image_open demo_libraries (seek \<lparr>content = [3], pos = 1\<rparr> 0) = Inr [3]"
    by (simp add: demo_libraries_def demo_open_def seek_def)
  from inst [where func = demo_plot and args = "[PyInt 3]" and kwargs = "[]"]
    plot type_str_none none_is_not_altair fresh rendered closed decoded
  have r2: "frame ?G demo_libraries [] [(''dpi'', PyInt 300)] demo_plot [PyInt 3] [] []
      = (Inr [3], [])"
    by blast
  have chart: "demo_chart [] [] [] = (Inr ?chart, [])"
    by (simp add: demo_chart_def)
  have loaded: "load_module (Imported demo_save_alt) = Inr ?G"
    by simp
  have fresh': "''fmt'' \<notin> fst ` set [(''dpi'', PyInt 300 :: string pyval)]"
    by simp
  have rendered': "demo_save_alt ?chart BytesIO []
      ((''fmt'', PyStr ''png'') # [(''dpi'', PyInt 300)]) = Inr \<lparr>content = [7], pos = 1\<rparr>"
    by (simp add: demo_save_alt_def BytesIO_def)
  have decoded': "Image_open demo_libraries (seek \<lparr>content = [7], pos = 1\<rparr> 0) = Inr [7]"
    by (simp add: demo_libraries_def demo_open_def seek_def)
  from inst [where func = demo_chart and args = "[]" and kwargs = "[]"]
    chart type_str_chart demo_chart_is_altair loaded fresh' rendered' decoded'
  have r3: "frame ?G demo_libraries [] [(''dpi'', PyInt 300)] demo_chart [] [] [] = (Inr [7], [])"
    by blast
  from rejects r1 plot type_str_none none_is_not_altair fresh rendered closed decoded r2
    chart type_str_chart demo_chart_is_altair loaded fresh' rendered' decoded' r3
  show ?thesis by simp
qed




text \<open>
  C10, as stated, fails: with \<^verbatim>\<open>fmt\<close> among the decorator's keywords, a chart and no
  \<^verbatim>\<open>altair_saver\<close>, the call raises \<open>MissingExtension\<close>, not the \<open>TypeError\<close> for a keyword
  given twice.
\<close>

theorem fmt_option_without_adapter_counterexample:
  "demo_chart [] [] [] = (Inr (PyObject (Class ''altair.vegalite.v4.api.Chart'') ''chart''), []) \<and>
   type_str (PyObject (Class ''altair.vegalite.v4.api.Chart'') ''chart'')
     = (Inr (class_repr ''altair.vegalite.v4.api.Chart'') :: string + string) \<and>
   py_in ''altair'' (class_repr ''altair.vegalite.v4.api.Chart'') \<and>
   ''fmt'' \<in> fst ` set [(''fmt'', PyStr ''svg'' :: string pyval)] \<and>
   frame \<lparr>altair_saver_installed = False, save_alt = None\<rparr> demo_libraries
       [] [(''fmt'', PyStr ''svg'')] demo_chart [] [] [] =
     (Inl (MissingExtension ''pip install gif[altair]''), []) \<and>
   MissingExtension ''pip install gif[altair]'' \<noteq> (TypeError_multiple_values ''fmt'' :: string exn)"
proof -
  have chart: "demo_chart [] [] [] = (Inr (PyObject (Class ''altair.vegalite.v4.api.Chart'') ''chart''), [])"
    by (simp add: demo_chart_def)
  have "frame \<lparr>altair_saver_installed = False, save_alt = None\<rparr> demo_libraries
       [] [(''fmt'', PyStr ''svg'')] demo_chart [] [] [] =
     (Inl (MissingExtension ''pip install gif[altair]''), [])"
    unfolding frame_chart [of demo_chart "[]" "[]" "[]", OF chart type_str_chart
        demo_chart_is_altair]
    by (simp add: chart_mode_not_installed)
  with chart type_str_chart demo_chart_is_altair show ?thesis by simp
qed

text \<open>
  C10, amended. The format cannot be overridden by keyword: every call that reaches
  \<^verbatim>\<open>plt.savefig\<close> or \<^verbatim>\<open>save_alt\<close> passes \<^verbatim>\<open>format="png"\<close> or \<^verbatim>\<open>fmt="png"\<close> in front of the
  decorator's keywords. With \<^verbatim>\<open>format\<close> among them, every call on the imperative branch
  raises the \<open>TypeError\<close> for a keyword given twice; with \<^verbatim>\<open>fmt\<close> among them, so does every
  call on the chart branch when \<^verbatim>\<open>altair_saver\<close> was imported.
\<close>

theorem format_keyword_cannot_be_overridden:
  assumes "func args kwargs f = (Inr plot, f1)"
    and "type_str plot = Inr name"
  shows "(\<not> py_in ''altair'' name \<and> ''format'' \<in> fst ` set save_kwargs \<longrightarrow>
            frame G L save_args save_kwargs func args kwargs f =
              (Inl (TypeError_multiple_values ''format''), f1)) \<and>
         (py_in ''altair'' name \<and> load_module (Imported fn) = Inr G \<and>
          ''fmt'' \<in> fst ` set save_kwargs \<longrightarrow>
            frame G L save_args save_kwargs func args kwargs f =
              (Inl (TypeError_multiple_values ''fmt''), f1)) \<and>
         (\<not> py_in ''altair'' name \<and> ''format'' \<notin> fst ` set save_kwargs \<longrightarrow>
            frame G L save_args save_kwargs func args kwargs f =
              (case plt_savefig L BytesIO save_args ((''format'', PyStr ''png'') # save_kwargs) f1 of
                 (Inl e, f2) \<Rightarrow> (Inl (Lib e), f2)
               | (Inr buffer, f2) \<Rightarrow>
                   (case plt_close L f2 of
                      (Inl e, f3) \<Rightarrow> (Inl (Lib e), f3)
                    | (Inr u, f3) \<Rightarrow> decode L buffer f3))) \<and>
         (py_in ''altair'' name \<and> load_module (Imported fn) = Inr G \<and>
          ''fmt'' \<notin> fst ` set save_kwargs \<longrightarrow>
            frame G L save_args save_kwargs func args kwargs f =
              (case fn plot BytesIO save_args ((''fmt'', PyStr ''png'') # save_kwargs) of
                 Inl e \<Rightarrow> (Inl (Lib e), f1)
               | Inr buffer \<Rightarrow> decode L buffer f1))"
proof (intro conjI impI)
  assume "\<not> py_in ''altair'' name \<and> ''format'' \<in> fst ` set save_kwargs"
  with assms show "frame G L save_args save_kwargs func args kwargs f =
      (Inl (TypeError_multiple_values ''format''), f1)"
    by (simp add: frame_imperative imperative_mode_duplicate)
next
  assume "py_in ''altair'' name \<and> load_module (Imported fn) = Inr G \<and>
      ''fmt'' \<in> fst ` set save_kwargs"
  then have chart: "py_in ''altair'' name"
    and loaded: "load_module (Imported fn) = Inr G"
    and dup: "''fmt'' \<in> fst ` set save_kwargs"
    by blast+
  from assms chart show "frame G L save_args save_kwargs func args kwargs f =
      (Inl (TypeError_multiple_values ''fmt''), f1)"
    by (simp add: frame_chart chart_mode_duplicate [OF loaded dup])
next
  assume "\<not> py_in ''altair'' name \<and> ''format'' \<notin> fst ` set save_kwargs"
  with assms show "frame G L save_args save_kwargs func args kwargs f =
      (case plt_savefig L BytesIO save_args ((''format'', PyStr ''png'') # save_kwargs) f1 of
         (Inl e, f2) \<Rightarrow> (Inl (Lib e), f2)
       | (Inr buffer, f2) \<Rightarrow>
           (case plt_close L f2 of
              (Inl e, f3) \<Rightarrow> (Inl (Lib e), f3)
            | (Inr u, f3) \<Rightarrow> decode L buffer f3))"
    by (simp add: frame_imperative imperative_mode_fresh)
next
  assume "py_in ''altair'' name \<and> load_module (Imported fn) = Inr G \<and>
      ''fmt'' \<notin> fst ` set save_kwargs"
  then have chart: "py_in ''altair'' name"
    and loaded: "load_module (Imported fn) = Inr G"
    and fresh: "''fmt'' \<notin> fst ` set save_kwargs"
    by blast+
  from assms chart show "frame G L save_args save_kwargs func args kwargs f =
      (case fn plot BytesIO save_args ((''fmt'', PyStr ''png'') # save_kwargs) of
         Inl e \<Rightarrow> (Inl (Lib e), f1)
       | Inr buffer \<Rightarrow> decode L buffer f1)"
    by (simp add: frame_chart chart_mode_fresh [OF loaded fresh])
qed

theorem format_keyword_cannot_be_overridden_witness:
  "demo_plot [PyInt 3] [] [] = (Inr PyNone, [3]) \<and>
   type_str PyNone = (Inr (class_repr ''NoneType'') :: string + string) \<and>
   \<not> py_in ''altair'' (class_repr ''NoneType'') \<and>
   ''format'' \<in> fst ` set [(''format'', PyStr ''jpg'' :: string pyval)] \<and>
   frame \<lparr>altair_saver_installed = True, save_alt = Some demo_save_alt\<rparr> demo_libraries
       [] [(''format'', PyStr ''jpg'')] demo_plot [PyInt 3] [] [] =
     (Inl (TypeError_multiple_values ''format''), [3]) \<and>
   demo_chart [] [] [] = (Inr (PyObject (Class ''altair.vegalite.v4.api.Chart'') ''chart''), []) \<and>
   type_str (PyObject (Class ''altair.vegalite.v4.api.Chart'') ''chart'')
     = (Inr (class_repr ''altair.vegalite.v4.api.Chart'') :: string + string) \<and>
   py_in ''altair'' (class_repr ''altair.vegalite.v4.api.Chart'') \<and>
   load_module (Imported demo_save_alt) =
     Inr \<lparr>altair_saver_installed = True, save_alt = Some demo_save_alt\<rparr> \<and>
   ''fmt'' \<in> fst ` set [(''fmt'', PyStr ''svg'' :: string pyval)] \<and>
   frame \<lparr>altair_saver_installed = True, save_alt = Some demo_save_alt\<rparr> demo_libraries
       [] [(''fmt'', PyStr ''svg'')] demo_chart [] [] [] =
     (Inl (TypeError_multiple_values ''fmt''), []) \<and>
   ''format'' \<notin> fst ` set [(''dpi'', PyInt 300 :: string pyval)] \<and>
   frame \<lparr>altair_saver_installed = True, save_alt = Some demo_save_alt\<rparr> demo_libraries
       [] [(''dpi'', PyInt 300)] demo_plot [PyInt 3] [] [] = (Inr [3], []) \<and>
   ''fmt'' \<notin> fst ` set [(''dpi'', PyInt 300 :: string pyval)] \<and>
   frame \<lparr>altair_saver_installed = True, save_alt = Some demo_save_alt\<rparr> demo_libraries
       [] [(''dpi'', PyInt 300)] demo_chart [] [] [] = (Inr [7], [])"
proof -
  let ?G = "\<lparr>altair_saver_installed = True, save_alt = Some demo_save_alt\<rparr>"
  have plot: "demo_plot [PyInt 3] [] [] = (Inr PyNone, [3])"
    by (simp add: demo_plot_def)
  have chart: "demo_chart [] [] [] = (Inr (PyObject (Class ''altair.vegalite.v4.api.Chart'') ''chart''), [])"
    by (simp add: demo_chart_def)
  have loaded: "load_module (Imported demo_save_alt) = Inr ?G"
    by simp
  have dup1: "''format'' \<in> fst ` set [(''format'', PyStr ''jpg'' :: string pyval)]" by simp
  have dup2: "''fmt'' \<in> fst ` set [(''fmt'', PyStr ''svg'' :: string pyval)]" by simp
  have fresh1: "''format'' \<notin> fst ` set [(''dpi'', PyInt 300 :: string pyval)]" by simp
  have fresh2: "''fmt'' \<notin> fst ` set [(''dpi'', PyInt 300 :: string pyval)]" by simp
  note p = format_keyword_cannot_be_overridden [of demo_plot "[PyInt 3]" "[]" "[]", OF plot type_str_none]
  note c = format_keyword_cannot_be_overridden [of demo_chart "[]" "[]" "[]", OF chart type_str_chart]
  from p [where save_kwargs = "[(''format'', PyStr ''jpg'')]" and G = ?G and L = demo_libraries
      and save_args = "[]" and fn = demo_save_alt]
    none_is_not_altair dup1
  have r1: "frame ?G demo_libraries [] [(''format'', PyStr ''jpg'')] demo_plot [PyInt 3] [] [] =
     (Inl (TypeError_multiple_values ''format''), [3])"
    by blast
  from c [where save_kwargs = "[(''fmt'', PyStr ''svg'')]" and G = ?G and L = demo_libraries
      and save_args = "[]" and fn = demo_save_alt]
    demo_chart_is_altair loaded dup2
  have r2: "frame ?G demo_libraries [] [(''fmt'', PyStr ''svg'')] demo_chart [] [] [] =
     (Inl (TypeError_multiple_values ''fmt''), [])"
    by blast
  from p [where save_kwargs = "[(''dpi'', PyInt 300)]" and G = ?G and L = demo_libraries
      and save_args = "[]" and fn = demo_save_alt]
    none_is_not_altair fresh1
  have "frame ?G demo_libraries [] [(''dpi'', PyInt 300)] demo_plot [PyInt 3] [] [] =
     (case plt_savefig demo_libraries BytesIO [] ((''format'', PyStr ''png'') # [(''dpi'', PyInt 300)]) [3] of
         (Inl e, f2) \<Rightarrow> (Inl (Lib e), f2)
       | (Inr buffer, f2) \<Rightarrow>
           (case plt_close demo_libraries f2 of
              (Inl e, f3) \<Rightarrow> (Inl (Lib e), f3)
            | (Inr u, f3) \<Rightarrow> decode demo_libraries buffer f3))"
    by blast
  then have r3: "frame ?G demo_libraries [] [(''dpi'', PyInt 300)] demo_plot [PyInt 3] [] [] =
      (Inr [3], [])"
    by (simp add: decode_cases demo_libraries_def demo_savefig_def demo_close_def demo_open_def
        BytesIO_def seek_def)
  from c [where save_kwargs = "[(''dpi'', PyInt 300)]" and G = ?G and L = demo_libraries
      and save_args = "[]" and fn = demo_save_alt]
    demo_chart_is_altair loaded fresh2
  have "frame ?G demo_libraries [] [(''dpi'', PyInt 300)] demo_chart [] [] [] =
      (case demo_save_alt (PyObject (Class ''altair.vegalite.v4.api.Chart'') ''chart'') BytesIO []
              ((''fmt'', PyStr ''png'') # [(''dpi'', PyInt 300)]) of
         Inl e \<Rightarrow> (Inl (Lib e), [])
       | Inr buffer \<Rightarrow> decode demo_libraries buffer [])"
    by blast
  then have r4: "frame ?G demo_libraries [] [(''dpi'', PyInt 300)] demo_chart [] [] [] =
      (Inr [7], [])"
    by (simp add: decode_cases demo_libraries_def demo_save_alt_def demo_open_def
        BytesIO_def seek_def)
  from plot chart loaded dup1 dup2 fresh1 fresh2 r1 r2 r3 r4 none_is_not_altair
    demo_chart_is_altair type_str_none type_str_chart
  show ?thesis by blast
qed

end
